theory Spec2Isabelle
  imports Main
begin

section \<open>The notebook's calls to the knowledge-base service\<close>

text \<open>
  The notebook \<^verbatim>\<open>hybrid_search_and_multi_query.ipynb\<close> defines two functions that talk
  to the managed knowledge-base service, \<^verbatim>\<open>retrieve\<close> and \<^verbatim>\<open>retrieve_and_generate\<close>.
  Each builds one request dictionary from its arguments, hands it to the corresponding
  method of the client object \<^verbatim>\<open>bedrock_agent_client\<close> and returns what the method
  returns. The source reads the client from a notebook global; the model takes it as the
  first argument \<open>client\<close>. Retrieval, ranking, fusion and generation all happen behind the client; the
  client is therefore a parameter of the model.
\<close>

subsection \<open>Request dictionaries\<close>

text \<open>
  The keyword arguments of a client call are nested Python dictionaries with string keys
  and string or integer leaves. A dictionary is an association list in the order of the
  source's literal.
\<close>

datatype json =
    JStr string
  | JInt int
  | JObj "(string \<times> json) list"

text \<open>\<open>lookup k d\<close> reads \<^verbatim>\<open>d[k]\<close>; \<open>lookup_path\<close> follows a chain of keys.\<close>

fun lookup :: "string \<Rightarrow> json \<Rightarrow> json option" where
  "lookup k (JObj kvs) = map_of kvs k"
| "lookup k (JStr s) = None"
| "lookup k (JInt i) = None"

fun lookup_path :: "string list \<Rightarrow> json \<Rightarrow> json option" where
  "lookup_path [] j = Some j"
| "lookup_path (k # ks) j =
     (case lookup k j of None \<Rightarrow> None | Some j' \<Rightarrow> lookup_path ks j')"

subsection \<open>The client\<close>

text \<open>
  A client method takes the request and the state of the world outside the notebook
  (service, network) and yields either an exception or a response, together with the
  new outside state. The notebook imports \<^verbatim>\<open>ClientError\<close> but never catches anything, so
  an exception of the client is the result of the calling function. The response type
  \<open>'r\<close> is left open: the notebook functions never look inside a response.
\<close>

datatype py_error = ClientError string | ParamValidationError string

type_synonym ('r, 'st) client_method = "json \<Rightarrow> 'st \<Rightarrow> (py_error + 'r) \<times> 'st"

record ('r, 'st) agent_client =
  client_retrieve :: "('r, 'st) client_method"
  client_retrieve_and_generate :: "('r, 'st) client_method"

subsection \<open>Session, configuration and client creation\<close>

text \<open>
  \<^verbatim>\<open>
  boto3_session = boto3.session.Session()
  region_name = boto3_session.region_name
  bedrock_config = Config(connect_timeout=120, read_timeout=120,
                          retries={'max_attempts': 0}, region_name=region_name)
  bedrock_agent_client = boto3_session.client("bedrock-agent-runtime",
                                config=bedrock_config)
  \<close>
  The session is the notebook's environment: it knows the region and makes a client
  from a service name and a configuration.
\<close>

record retries_dict =
  max_attempts :: int

record Config =
  connect_timeout :: int
  read_timeout :: int
  retries :: retries_dict
  region_name :: string

record ('r, 'st) session =
  session_region_name :: string
  session_client :: "string \<Rightarrow> Config \<Rightarrow> ('r, 'st) agent_client"

definition bedrock_config :: "('r, 'st) session \<Rightarrow> Config" where
  "bedrock_config boto3_session =
     \<lparr>connect_timeout = 120, read_timeout = 120,
      retries = \<lparr>max_attempts = 0\<rparr>,
      region_name = session_region_name boto3_session\<rparr>"

definition bedrock_agent_client :: "('r, 'st) session \<Rightarrow> ('r, 'st) agent_client" where
  "bedrock_agent_client boto3_session =
     session_client boto3_session ''bedrock-agent-runtime'' (bedrock_config boto3_session)"

subsection \<open>The notebook functions\<close>

text \<open>
  \<^verbatim>\<open>
  def retrieve_and_generate(query, kb_id, model_arn, max_results, search_type):
      response = bedrock_agent_client.retrieve_and_generate(
              input={'text': query},
          retrieveAndGenerateConfiguration={
          'type': 'KNOWLEDGE_BASE',
          'knowledgeBaseConfiguration': {
              'knowledgeBaseId': kb_id,
              'modelArn': model_arn,
              'retrievalConfiguration': {
                  'vectorSearchConfiguration': {
                      'numberOfResults': max_results,
                      'overrideSearchType' : search_type}}}})
      return response
  \<close>
\<close>

definition retrieve_and_generate ::
  "('r, 'st) agent_client \<Rightarrow> string \<Rightarrow> string \<Rightarrow> string \<Rightarrow> int \<Rightarrow> string
     \<Rightarrow> 'st \<Rightarrow> (py_error + 'r) \<times> 'st" where
  "retrieve_and_generate client query kb_id model_arn max_results search_type =
     client_retrieve_and_generate client
       (JObj [
          (''input'', JObj [(''text'', JStr query)]),
          (''retrieveAndGenerateConfiguration'', JObj [
             (''type'', JStr ''KNOWLEDGE_BASE''),
             (''knowledgeBaseConfiguration'', JObj [
                (''knowledgeBaseId'', JStr kb_id),
                (''modelArn'', JStr model_arn),
                (''retrievalConfiguration'', JObj [
                   (''vectorSearchConfiguration'', JObj [
                      (''numberOfResults'', JInt max_results),
                      (''overrideSearchType'', JStr search_type)])])])])])"

text \<open>
  \<^verbatim>\<open>
  def retrieve(query, kb_id, model_arn, max_results, search_type):
      response = bedrock_agent_client.retrieve(
              retrievalQuery={'text': query},
          knowledgeBaseId= kb_id,
          retrievalConfiguration={
                  'vectorSearchConfiguration': {
                      'numberOfResults': max_results,
                      'overrideSearchType': search_type}})
      return response
  \<close>
  The parameter \<^verbatim>\<open>model_arn\<close> is accepted and not used.
\<close>

definition retrieve ::
  "('r, 'st) agent_client \<Rightarrow> string \<Rightarrow> string \<Rightarrow> string \<Rightarrow> int \<Rightarrow> string
     \<Rightarrow> 'st \<Rightarrow> (py_error + 'r) \<times> 'st" where
  "retrieve client query kb_id model_arn max_results search_type =
     client_retrieve client
       (JObj [
          (''retrievalQuery'', JObj [(''text'', JStr query)]),
          (''knowledgeBaseId'', JStr kb_id),
          (''retrievalConfiguration'', JObj [
             (''vectorSearchConfiguration'', JObj [
                (''numberOfResults'', JInt max_results),
                (''overrideSearchType'', JStr search_type)])])])"

subsection \<open>Observing the requests a function sends\<close>

text \<open>
  \<open>recording c\<close> behaves as the client \<open>c\<close> and also appends every request it is
  given to a log kept beside the outside state. The log makes "how many requests, and
  which" a property of the final state.
\<close>

datatype operation = Retrieve | RetrieveAndGenerate

definition record_call ::
  "operation \<Rightarrow> ('r, 'st) client_method \<Rightarrow> ('r, (operation \<times> json) list \<times> 'st) client_method" where
  "record_call op m req s =
     (case m req (snd s) of (r, st') \<Rightarrow> (r, (fst s @ [(op, req)], st')))"

definition recording ::
  "('r, 'st) agent_client \<Rightarrow> ('r, (operation \<times> json) list \<times> 'st) agent_client" where
  "recording c =
     \<lparr>client_retrieve = record_call Retrieve (client_retrieve c),
      client_retrieve_and_generate = record_call RetrieveAndGenerate (client_retrieve_and_generate c)\<rparr>"

text \<open>The log of requests after running \<open>f\<close> against the recording client from an empty log.\<close>

definition requests_sent ::
  "(('r, (operation \<times> json) list \<times> 'st) agent_client \<Rightarrow> (operation \<times> json) list \<times> 'st
      \<Rightarrow> (py_error + 'r) \<times> (operation \<times> json) list \<times> 'st)
     \<Rightarrow> ('r, 'st) agent_client \<Rightarrow> 'st \<Rightarrow> (operation \<times> json) list" where
  "requests_sent f c st = fst (snd (f (recording c) ([], st)))"

section \<open>Properties\<close>

lemma record_call_state:
  "snd (record_call op m req (log, st)) = (log @ [(op, req)], snd (m req st))"
  by (simp add: record_call_def split: prod.splits)

text \<open>
  Claim C10. \<^verbatim>\<open>retrieve\<close> and \<^verbatim>\<open>retrieve_and_generate\<close> put their query text,
  \<^verbatim>\<open>max_results\<close> and \<^verbatim>\<open>search_type\<close> arguments unchanged into the service request
  and return the service's answer unchanged. Each sends exactly one request, of its own
  operation, whatever the client answers (a response or an exception); the query text is
  found under \<^verbatim>\<open>text\<close>, the result count under \<^verbatim>\<open>numberOfResults\<close> and the search type
  under \<^verbatim>\<open>overrideSearchType\<close>; the function's result and the outside state after it
  are those of that single client call, so nothing is re-ranked, deduplicated, truncated,
  filtered or retried locally, and the result is determined by the arguments and the
  client's answer. The client is created from the session with \<^verbatim>\<open>bedrock_config\<close>,
  whose \<^verbatim>\<open>retries\<close> entry has \<^verbatim>\<open>max_attempts\<close> 0.
\<close>

theorem retrieve_functions_pass_through:
  fixes c :: "('r, 'st) agent_client"
  shows
    "(\<exists>req.
        requests_sent (\<lambda>c'. retrieve c' query kb_id model_arn max_results search_type) c st
          = [(Retrieve, req)]
      \<and> lookup_path [''retrievalQuery'', ''text''] req = Some (JStr query)
      \<and> lookup_path [''knowledgeBaseId''] req = Some (JStr kb_id)
      \<and> lookup_path [''retrievalConfiguration'', ''vectorSearchConfiguration'',
                      ''numberOfResults''] req = Some (JInt max_results)
      \<and> lookup_path [''retrievalConfiguration'', ''vectorSearchConfiguration'',
                      ''overrideSearchType''] req = Some (JStr search_type)
      \<and> retrieve c query kb_id model_arn max_results search_type st = client_retrieve c req st)
   \<and> (\<exists>req.
        requests_sent (\<lambda>c'. retrieve_and_generate c' query kb_id model_arn max_results search_type) c st
          = [(RetrieveAndGenerate, req)]
      \<and> lookup_path [''input'', ''text''] req = Some (JStr query)
      \<and> lookup_path [''retrieveAndGenerateConfiguration'', ''knowledgeBaseConfiguration'',
                      ''knowledgeBaseId''] req = Some (JStr kb_id)
      \<and> lookup_path [''retrieveAndGenerateConfiguration'', ''knowledgeBaseConfiguration'',
                      ''modelArn''] req = Some (JStr model_arn)
      \<and> lookup_path [''retrieveAndGenerateConfiguration'', ''knowledgeBaseConfiguration'',
                      ''retrievalConfiguration'', ''vectorSearchConfiguration'',
                      ''numberOfResults''] req = Some (JInt max_results)
      \<and> lookup_path [''retrieveAndGenerateConfiguration'', ''knowledgeBaseConfiguration'',
                      ''retrievalConfiguration'', ''vectorSearchConfiguration'',
                      ''overrideSearchType''] req = Some (JStr search_type)
      \<and> retrieve_and_generate c query kb_id model_arn max_results search_type st
          = client_retrieve_and_generate c req st)
   \<and> bedrock_agent_client boto3_session
        = session_client boto3_session ''bedrock-agent-runtime'' (bedrock_config boto3_session)
   \<and> max_attempts (retries (bedrock_config boto3_session)) = 0"
proof (intro conjI)
  show "\<exists>req.
        requests_sent (\<lambda>c'. retrieve c' query kb_id model_arn max_results search_type) c st
          = [(Retrieve, req)]
      \<and> lookup_path [''retrievalQuery'', ''text''] req = Some (JStr query)
      \<and> lookup_path [''knowledgeBaseId''] req = Some (JStr kb_id)
      \<and> lookup_path [''retrievalConfiguration'', ''vectorSearchConfiguration'',
                      ''numberOfResults''] req = Some (JInt max_results)
      \<and> lookup_path [''retrievalConfiguration'', ''vectorSearchConfiguration'',
                      ''overrideSearchType''] req = Some (JStr search_type)
      \<and> retrieve c query kb_id model_arn max_results search_type st = client_retrieve c req st"
    by (simp add: requests_sent_def retrieve_def recording_def record_call_state)
next
  show "\<exists>req.
        requests_sent (\<lambda>c'. retrieve_and_generate c' query kb_id model_arn max_results search_type) c st
          = [(RetrieveAndGenerate, req)]
      \<and> lookup_path [''input'', ''text''] req = Some (JStr query)
      \<and> lookup_path [''retrieveAndGenerateConfiguration'', ''knowledgeBaseConfiguration'',
                      ''knowledgeBaseId''] req = Some (JStr kb_id)
      \<and> lookup_path [''retrieveAndGenerateConfiguration'', ''knowledgeBaseConfiguration'',
                      ''modelArn''] req = Some (JStr model_arn)
      \<and> lookup_path [''retrieveAndGenerateConfiguration'', ''knowledgeBaseConfiguration'',
                      ''retrievalConfiguration'', ''vectorSearchConfiguration'',
                      ''numberOfResults''] req = Some (JInt max_results)
      \<and> lookup_path [''retrieveAndGenerateConfiguration'', ''knowledgeBaseConfiguration'',
                      ''retrievalConfiguration'', ''vectorSearchConfiguration'',
                      ''overrideSearchType''] req = Some (JStr search_type)
      \<and> retrieve_and_generate c query kb_id model_arn max_results search_type st
          = client_retrieve_and_generate c req st"
    by (simp add: requests_sent_def retrieve_and_generate_def recording_def record_call_state)
next
  show "bedrock_agent_client boto3_session
        = session_client boto3_session ''bedrock-agent-runtime'' (bedrock_config boto3_session)"
    by (simp add: bedrock_agent_client_def)
next
  show "max_attempts (retries (bedrock_config boto3_session)) = 0"
    by (simp add: bedrock_config_def)
qed

end
